theory Spec2Isabelle
  imports Main "HOL-Library.Multiset"
begin

section \<open>Python strings and integers\<close>

text \<open>
  Strings are byte lists; the helpers below cover the ASCII part of Python's
  \<^verbatim>\<open>str.strip\<close>, \<^verbatim>\<open>str.lower\<close>, \<^verbatim>\<open>str(int)\<close> and \<^verbatim>\<open>int(str)\<close>.
\<close>

definition is_space :: "char \<Rightarrow> bool" where
  "is_space c = (let n = (of_char c :: nat) in (9 \<le> n \<and> n \<le> 13) \<or> (28 \<le> n \<and> n \<le> 32))"

definition strip :: "string \<Rightarrow> string" where
  "strip s = rev (dropWhile is_space (rev (dropWhile is_space s)))"

definition lower_char :: "char \<Rightarrow> char" where
  "lower_char c = (let n = (of_char c :: nat) in if 65 \<le> n \<and> n \<le> 90 then char_of (n + 32) else c)"

definition lower :: "string \<Rightarrow> string" where
  "lower s = map lower_char s"

definition is_digit :: "char \<Rightarrow> bool" where
  "is_digit c = (let n = (of_char c :: nat) in 48 \<le> n \<and> n \<le> 57)"

definition digit_val :: "char \<Rightarrow> nat" where
  "digit_val c = (of_char c :: nat) - 48"

definition digit_char :: "nat \<Rightarrow> char" where
  "digit_char n = char_of (48 + n)"

fun str_nat :: "nat \<Rightarrow> string" where
  "str_nat n = (if n < 10 then [digit_char n] else str_nat (n div 10) @ [digit_char (n mod 10)])"

declare str_nat.simps [simp del]

definition str_int :: "int \<Rightarrow> string" where
  "str_int i = (if i < 0 then CHR ''-'' # str_nat (nat (- i)) else str_nat (nat i))"

text \<open>
  Decimal digits with single underscores between digits, as \<^verbatim>\<open>int()\<close> accepts them;
  the flag records that the previous character was a digit.
\<close>

fun parse_digits :: "string \<Rightarrow> nat \<Rightarrow> bool \<Rightarrow> nat option" where
  "parse_digits [] acc prev = (if prev then Some acc else None)"
| "parse_digits (c # cs) acc prev =
     (if is_digit c then parse_digits cs (acc * 10 + digit_val c) True
      else if c = CHR ''_'' \<and> prev then parse_digits cs acc False
      else None)"

definition int_of_str :: "string \<Rightarrow> int option" where
  "int_of_str s =
     (case strip s of
        [] \<Rightarrow> None
      | c # cs \<Rightarrow>
          if c = CHR ''-'' then map_option (\<lambda>n. - int n) (parse_digits cs 0 False)
          else if c = CHR ''+'' then map_option int (parse_digits cs 0 False)
          else map_option int (parse_digits (c # cs) 0 False))"

text \<open>
  The values \<^verbatim>\<open>request.args.get('limit', 10)\<close> can hand to \<^verbatim>\<open>int()\<close>: the integer
  default or the query-string text.
\<close>

datatype pyval = PyInt int | PyStr string

definition py_int :: "pyval \<Rightarrow> int option" where
  "py_int v = (case v of PyInt n \<Rightarrow> Some n | PyStr s \<Rightarrow> int_of_str s)"

definition truthy :: "string option \<Rightarrow> bool" where
  "truthy v = (case v of None \<Rightarrow> False | Some s \<Rightarrow> s \<noteq> [])"

section \<open>cluster\_master.py: helpers\<close>


text \<open>
  \<^verbatim>\<open>hashlib.md5(...).hexdigest()\<close> is a library function; it is the parameter \<open>md5\<close>.
\<close>

definition key_string :: "string \<Rightarrow> string \<Rightarrow> int \<Rightarrow> string" where
  "key_string query location limit = query @ '':'' @ location @ '':'' @ str_int limit"

definition generate_cache_key :: "(string \<Rightarrow> string) \<Rightarrow> string \<Rightarrow> string \<Rightarrow> int \<Rightarrow> string" where
  "generate_cache_key md5 query location limit = ''cache:'' @ md5 (key_string query location limit)"

section \<open>api\_server.py: helpers\<close>

definition get_cache_key :: "string \<Rightarrow> string \<Rightarrow> string" where
  "get_cache_key query location = strip (lower (query @ ''|'' @ location))"

section \<open>Results, tasks and HTTP responses\<close>

text \<open>
  A result dictionary as the workers build it: \<^verbatim>\<open>status\<close>, \<^verbatim>\<open>local_results.places\<close>,
  \<^verbatim>\<open>error\<close>, \<^verbatim>\<open>task_id\<close>, \<^verbatim>\<open>worker_id\<close>, the top-level \<^verbatim>\<open>from_cache\<close> of the
  multi-host gateway and the \<^verbatim>\<open>search_metadata\<close> entries the gateways read.
  The payload type \<open>'p\<close> is opaque.
\<close>

record 'p result =
  status :: string
  places :: "'p list"
  error :: "string option"
  task_id :: "string option"
  res_worker_id :: "nat option"
  from_cache :: "bool option"
  meta_from_cache :: bool
  meta_captchas_solved :: nat
  meta_total_time_taken :: nat

text \<open>The task the multi-host gateway serialises onto \<^verbatim>\<open>scraper:tasks\<close>.\<close>

record task =
  t_id :: string
  t_query :: string
  t_location :: string
  t_limit :: int

datatype 'a outcome = Ok 'a | Raise string

text \<open>
  Response bodies. The messages are constructors: \<open>MissingParams\<close> is the 400 text of either
  gateway, \<open>RequestTimeout\<close> is \<^verbatim>\<open>Request timeout - no worker available\<close>,
  \<open>NotInitialised\<close> is the 503 text for an absent pool, \<open>NoActiveWorker\<close> is
  \<^verbatim>\<open>Nenhum worker ativo no momento\<close>, \<open>Exception e\<close> is \<^verbatim>\<open>str(e)\<close> of a caught exception.
  \<open>BTimeout limit elapsed\<close> is the body with \<^verbatim>\<open>status: timeout\<close>.
\<close>

datatype msg = MissingParams | RequestTimeout | NotInitialised | NoActiveWorker | Exception string

datatype 'p body = BError msg | BTimeout int nat | BResult "'p result"

datatype 'p http = Http nat "'p body"

section \<open>The Redis keyspace\<close>

text \<open>
  Every key this program writes is written with \<^verbatim>\<open>SETEX\<close>, so an entry is a value and
  the second at which it expires. The clock of the store counts whole seconds, the unit of
  \<^verbatim>\<open>TTL\<close>. \<open>Text\<close> is a plain string value, \<open>Json\<close> a serialised result.
\<close>

datatype 'p rval = Text string | Json "'p result"

type_synonym 'p keyspace = "string \<Rightarrow> ('p rval \<times> nat) option"

definition redis_get :: "'p keyspace \<Rightarrow> nat \<Rightarrow> string \<Rightarrow> 'p rval option" where
  "redis_get ks now k = (case ks k of None \<Rightarrow> None | Some (v, e) \<Rightarrow> if now < e then Some v else None)"

text \<open>\<^verbatim>\<open>SETEX\<close> refuses a time to live that is not positive: the client raises.\<close>

definition redis_setex :: "'p keyspace \<Rightarrow> nat \<Rightarrow> string \<Rightarrow> int \<Rightarrow> 'p rval \<Rightarrow> 'p keyspace option" where
  "redis_setex ks now k ttl v = (if ttl \<le> 0 then None else Some (ks(k \<mapsto> (v, now + nat ttl))))"

definition redis_delete :: "'p keyspace \<Rightarrow> string \<Rightarrow> 'p keyspace" where
  "redis_delete ks k = ks(k := None)"


section \<open>cluster\_master.py: liveness and search\<close>







record 'p master =
  redis :: "'p keyspace"
  tasks :: "task list"
  total_requests :: nat
  successful :: nat
  failed :: nat
  cache_hits :: nat
  stat_captchas_solved :: nat


definition set_cached_result ::
  "(string \<Rightarrow> string) \<Rightarrow> nat \<Rightarrow> string \<Rightarrow> string \<Rightarrow> int \<Rightarrow> 'p result \<Rightarrow> 'p master \<Rightarrow> 'p master outcome" where
  "set_cached_result md5 now query location limit r st =
     (case redis_setex (redis st) now (generate_cache_key md5 query location limit) 86400 (Json r) of
        None \<Rightarrow> Raise ''ResponseError''
      | Some ks \<Rightarrow> Ok (st\<lparr>redis := ks\<rparr>))"

text \<open>
  The clock of the gateway is \<^verbatim>\<open>time.time()\<close> in microseconds; the task id is
  \<^verbatim>\<open>f"task:{int(time.time() * 1000)}"\<close>.
\<close>

definition master_task_id :: "nat \<Rightarrow> string" where
  "master_task_id now_us = ''task:'' @ str_nat (now_us div 1000)"

definition seconds_of :: "nat \<Rightarrow> nat" where
  "seconds_of now_us = now_us div 1000000"

text \<open>
  The wait loop: one poll a second for 120 seconds. \<open>world s\<close> is what the other
  processes (the workers) do to the shared state during the sleep that starts at second \<open>s\<close>.
\<close>

fun wait_result ::
  "(string \<Rightarrow> string) \<Rightarrow> (nat \<Rightarrow> 'p master \<Rightarrow> 'p master) \<Rightarrow> nat \<Rightarrow> nat \<Rightarrow> string \<Rightarrow> string \<Rightarrow> string \<Rightarrow> int
     \<Rightarrow> 'p master \<Rightarrow> 'p http \<times> 'p master" where
  "wait_result md5 world 0 now tid query location limit st =
     (Http 504 (BError RequestTimeout), st\<lparr>failed := failed st + 1\<rparr>)"
| "wait_result md5 world (Suc n) now tid query location limit st =
     (case redis_get (redis st) now (''scraper:result:'' @ tid) of
        Some (Json result_data) \<Rightarrow>
          (let st1 = st\<lparr>redis := redis_delete (redis st) (''scraper:result:'' @ tid)\<rparr>
           in if status result_data = ''success'' then
                (let st2 = st1\<lparr>successful := successful st1 + 1\<rparr>;
                     st3 = (if meta_captchas_solved result_data > 0
                            then st2\<lparr>stat_captchas_solved :=
                                       stat_captchas_solved st2 + meta_captchas_solved result_data\<rparr>
                            else st2)
                 in case set_cached_result md5 now query location limit result_data st3 of
                      Raise e \<Rightarrow> (Http 500 (BError (Exception e)), st3\<lparr>failed := failed st3 + 1\<rparr>)
                    | Ok st4 \<Rightarrow> (Http 200 (BResult (result_data\<lparr>from_cache := Some False\<rparr>)), st4))
              else (Http 200 (BResult (result_data\<lparr>from_cache := Some False\<rparr>)),
                    st1\<lparr>failed := failed st1 + 1\<rparr>))
      | Some (Text s) \<Rightarrow>
          if s = [] then wait_result md5 world n (now + 1) tid query location limit (world now st)
          else (Http 500 (BError (Exception ''JSONDecodeError'')), st\<lparr>failed := failed st + 1\<rparr>)
      | None \<Rightarrow> wait_result md5 world n (now + 1) tid query location limit (world now st))"

record request =
  arg_query :: "string option"
  arg_location :: "string option"
  arg_limit :: "string option"
  arg_use_cache :: "string option"

definition enqueue_and_wait ::
  "(string \<Rightarrow> string) \<Rightarrow> (nat \<Rightarrow> 'p master \<Rightarrow> 'p master) \<Rightarrow> nat \<Rightarrow> string \<Rightarrow> string \<Rightarrow> int
     \<Rightarrow> 'p master \<Rightarrow> 'p http \<times> 'p master" where
  "enqueue_and_wait md5 world now_us query location limit st =
     (let tid = master_task_id now_us;
          st1 = st\<lparr>tasks := \<lparr>t_id = tid, t_query = query, t_location = location, t_limit = limit\<rparr>
                              # tasks st\<rparr>
      in wait_result md5 world 120 (seconds_of now_us) tid query location limit st1)"



section \<open>worker\_pool\_v3.py: the worker and the pool\<close>

text \<open>The payload \<^verbatim>\<open>submit_task\<close> puts on the task queue; \<^verbatim>\<open>limit\<close> is a keyword argument.\<close>

record ptask =
  p_id :: string
  p_query :: string
  p_location :: string
  p_limit :: "int option"

record worker =
  worker_id :: nat
  is_busy :: bool
  total_searches :: nat
  successful_searches :: nat
  failed_searches :: nat
  captchas_solved :: nat

text \<open>
  \<^verbatim>\<open>SeleniumWorker.search\<close>. The collaborator \<^verbatim>\<open>_perform_search\<close> is the parameter
  \<open>perform\<close>: the outcome of its call in attempt number \<open>attempt\<close> (counted from 0), a
  result or a raised exception with its text. The loop is \<^verbatim>\<open>for attempt in range(max_retries)\<close>;
  the last component counts the calls made.
\<close>

fun search_loop ::
  "(nat \<Rightarrow> 'a outcome) \<Rightarrow> nat \<Rightarrow> nat \<Rightarrow> string option \<Rightarrow> ('a + string option) \<times> nat" where
  "search_loop perform attempt 0 last_err = (Inr last_err, attempt)"
| "search_loop perform attempt (Suc k) last_err =
     (case perform attempt of
        Ok r \<Rightarrow> (Inl r, Suc attempt)
      | Raise e \<Rightarrow> search_loop perform (Suc attempt) k (Some e))"

definition error_result :: "string \<Rightarrow> nat option \<Rightarrow> 'p result" where
  "error_result e wid =
     \<lparr>status = ''error'', places = [], error = Some e, task_id = None, res_worker_id = wid,
      from_cache = None, meta_from_cache = False, meta_captchas_solved = 0,
      meta_total_time_taken = 0\<rparr>"

definition search :: "(nat \<Rightarrow> 'p result outcome) \<Rightarrow> int \<Rightarrow> worker \<Rightarrow> 'p result \<times> worker \<times> nat" where
  "search perform max_retries w =
     (let w1 = w\<lparr>is_busy := True, total_searches := total_searches w + 1\<rparr>
      in case search_loop perform 0 (nat max_retries) None of
           (Inl r, calls) \<Rightarrow>
             (r, w1\<lparr>successful_searches := successful_searches w1 + 1, is_busy := False\<rparr>, calls)
         | (Inr last_err, calls) \<Rightarrow>
             (error_result (case last_err of None \<Rightarrow> ''erro desconhecido'' | Some e \<Rightarrow> e)
                (Some (worker_id w1)),
              w1\<lparr>failed_searches := failed_searches w1 + 1, is_busy := False\<rparr>, calls))"

text \<open>
  The pool: the workers, the task queue (\<open>None\<close> is the sentinel \<^verbatim>\<open>stop\<close> enqueues), the
  result queue, and the configuration entries the loop reads.
\<close>

record 'p pool =
  workers :: "worker list"
  task_queue :: "ptask option list"
  result_queue :: "'p result list"
  config_max_retries :: "int option"
  default_limit :: int

definition submit_task :: "string \<Rightarrow> string \<Rightarrow> string \<Rightarrow> int option \<Rightarrow> 'p pool \<Rightarrow> 'p pool" where
  "submit_task query location tid limit pool =
     pool\<lparr>task_queue := task_queue pool @
              [Some \<lparr>p_id = tid, p_query = query, p_location = location, p_limit = limit\<rparr>]\<rparr>"

text \<open>
  One pass of \<^verbatim>\<open>_worker_loop\<close> for the worker at index \<open>i\<close> of the pool (a loop runs only
  for a worker of the pool): an empty queue ends the pass (\<^verbatim>\<open>queue.Empty\<close>), the sentinel
  ends the loop, a task is searched and its result is put on the result queue under the
  task's id. \<^verbatim>\<open>search\<close> catches what the collaborator raises, so the \<^verbatim>\<open>except\<close> branch of
  the loop is not reached.
\<close>

datatype pass = Idle | Stopped | Handled nat

definition worker_loop_pass ::
  "(string \<Rightarrow> string \<Rightarrow> int \<Rightarrow> nat \<Rightarrow> 'p result outcome) \<Rightarrow> nat \<Rightarrow> 'p pool \<Rightarrow> 'p pool \<times> pass" where
  "worker_loop_pass perform i pool =
     (if length (workers pool) \<le> i then (pool, Idle) else
      case task_queue pool of
        [] \<Rightarrow> (pool, Idle)
      | None # rest \<Rightarrow> (pool\<lparr>task_queue := rest\<rparr>, Stopped)
      | Some t # rest \<Rightarrow>
          (case search
                  (perform (p_query t) (p_location t)
                     (case p_limit t of None \<Rightarrow> default_limit pool | Some l \<Rightarrow> l))
                  (case config_max_retries pool of None \<Rightarrow> 2 | Some m \<Rightarrow> m)
                  (workers pool ! i) of
             (r, w, calls) \<Rightarrow>
               (pool\<lparr>task_queue := rest,
                     workers := (workers pool)[i := w],
                     result_queue := result_queue pool @ [r\<lparr>task_id := Some (p_id t)\<rparr>]\<rparr>,
                Handled calls)))"

text \<open>
  \<^verbatim>\<open>get_result\<close>. The clock counts microseconds. \<^verbatim>\<open>result_queue.get(timeout=0.5)\<close> on an
  empty queue blocks for half a second and raises \<^verbatim>\<open>queue.Empty\<close>; on a queue with an
  item it returns at once, and that pass of the loop takes \<open>Suc lat\<close> microseconds.
  No other thread puts or takes during the call. The function returns the result, the queue
  it leaves and the time of the return.
\<close>

function get_result_loop ::
  "string option \<Rightarrow> int \<Rightarrow> nat \<Rightarrow> 'p result list \<Rightarrow> nat \<Rightarrow> 'p result option \<times> 'p result list \<times> nat" where
  "get_result_loop tid end_time lat q now =
     (if int now < end_time then
        (case q of
           [] \<Rightarrow> get_result_loop tid end_time lat [] (now + 500000)
         | item # rest \<Rightarrow>
             if \<not> truthy tid \<or> task_id item = tid then (Some item, rest, now + Suc lat)
             else get_result_loop tid end_time lat (rest @ [item]) (now + Suc lat))
      else (None, q, now))"
  by pat_completeness auto
termination
  by (relation "measure (\<lambda>(tid, end_time, lat, q, now). nat (end_time - int now))") auto

declare get_result_loop.simps [simp del]

definition get_result ::
  "string option \<Rightarrow> int \<Rightarrow> nat \<Rightarrow> 'p result list \<Rightarrow> nat \<Rightarrow> 'p result option \<times> 'p result list \<times> nat" where
  "get_result tid timeout lat q now = get_result_loop tid (int now + timeout) lat q now"

definition total_workers :: "'p pool \<Rightarrow> nat" where
  "total_workers pool = length (workers pool)"

definition busy_workers :: "'p pool \<Rightarrow> nat" where
  "busy_workers pool = length (filter is_busy (workers pool))"

definition available_workers :: "'p pool \<Rightarrow> nat" where
  "available_workers pool = length (workers pool) - busy_workers pool"

section \<open>api\_server.py: search\<close>

record 'p server =
  cache_memory :: "string \<Rightarrow> 'p result option"
  worker_pool :: "'p pool option"
  clock :: nat

record api_request =
  q_query :: "string option"
  q_location :: "string option"
  q_limit :: "string option"

text \<open>
  \<open>max_response_time\<close> is \<^verbatim>\<open>MAX_RESPONSE_TIME\<close> in seconds, \<open>env_default_limit\<close> the
  environment variable \<^verbatim>\<open>DEFAULT_LIMIT\<close>, \<open>uuid\<close> the text of \<^verbatim>\<open>uuid.uuid4()\<close>.
  A limit that \<^verbatim>\<open>int()\<close> rejects raises before the parameters are checked. The cached
  dictionary and the returned copy share \<^verbatim>\<open>search_metadata\<close>, so \<^verbatim>\<open>from_cache\<close> is set
  in both. The elapsed time of the timeout body is in microseconds.
\<close>

definition api_search ::
  "int \<Rightarrow> string option \<Rightarrow> nat \<Rightarrow> string \<Rightarrow> api_request \<Rightarrow> 'p server \<Rightarrow> 'p http \<times> 'p server" where
  "api_search max_response_time env_default_limit lat uuid req st =
     (let query = strip (case q_query req of None \<Rightarrow> [] | Some s \<Rightarrow> s);
          location = strip (case q_location req of None \<Rightarrow> [] | Some s \<Rightarrow> s)
      in case py_int (case q_limit req of
                        Some s \<Rightarrow> PyStr s
                      | None \<Rightarrow> (case env_default_limit of Some s \<Rightarrow> PyStr s | None \<Rightarrow> PyInt 20)) of
           None \<Rightarrow> (Http 500 (BError (Exception ''ValueError'')), st)
         | Some limit \<Rightarrow>
             if query = [] \<or> location = [] then (Http 400 (BError MissingParams), st)
             else
               (let cache_key = get_cache_key query location
                in case cache_memory st cache_key of
                     Some cached \<Rightarrow>
                       (let r = cached\<lparr>meta_from_cache := True\<rparr>
                        in (Http 200 (BResult r), st\<lparr>cache_memory := (cache_memory st)(cache_key \<mapsto> r)\<rparr>))
                   | None \<Rightarrow>
                       (case worker_pool st of
                          None \<Rightarrow> (Http 503 (BError NotInitialised), st)
                        | Some pool \<Rightarrow>
                            if available_workers pool = 0 \<and> total_workers pool = 0
                            then (Http 503 (BError NoActiveWorker), st)
                            else
                              (let pool1 = submit_task query location uuid (Some limit) pool;
                                   start_time = clock st
                               in case get_result (Some uuid) (max_response_time * 1000000) lat
                                         (result_queue pool1) start_time of
                                    (None, rq, now) \<Rightarrow>
                                      (Http 504 (BTimeout max_response_time (now - start_time)),
                                       st\<lparr>worker_pool := Some (pool1\<lparr>result_queue := rq\<rparr>), clock := now\<rparr>)
                                  | (Some r, rq, now) \<Rightarrow>
                                      if status r = ''error''
                                      then (Http 500 (BResult r),
                                            st\<lparr>worker_pool := Some (pool1\<lparr>result_queue := rq\<rparr>), clock := now\<rparr>)
                                      else
                                        (let r' = r\<lparr>meta_from_cache := False\<rparr>
                                         in (Http 200 (BResult r'),
                                             st\<lparr>cache_memory := (cache_memory st)(cache_key \<mapsto> r'),
                                                worker_pool := Some (pool1\<lparr>result_queue := rq\<rparr>),
                                                clock := now\<rparr>))))))"

section \<open>worker\_pool\_v3.py: extraction of the places\<close>











section \<open>cluster\_worker.py: extraction of the places\<close>








section \<open>Records kept by the extraction\<close>





section \<open>Sample inputs\<close>

definition req0 :: request where
  "req0 = \<lparr>arg_query = Some ''pizza'', arg_location = Some ''boston'', arg_limit = Some ''100'', arg_use_cache = None\<rparr>"

definition master0 :: "nat master" where
  "master0 = \<lparr>redis = (\<lambda>k. None), tasks = [], total_requests = 0, successful = 0, failed = 0,
               cache_hits = 0, stat_captchas_solved = 0\<rparr>"

definition result_a :: "nat result" where
  "result_a = \<lparr>status = ''success'', places = [], error = None, task_id = Some ''a'', res_worker_id = Some 1,
      from_cache = None, meta_from_cache = False, meta_captchas_solved = 0,
      meta_total_time_taken = 0\<rparr>"

definition result_b :: "nat result" where
  "result_b = \<lparr>status = ''success'', places = [], error = None, task_id = Some ''b'', res_worker_id = Some 1,
      from_cache = None, meta_from_cache = False, meta_captchas_solved = 0,
      meta_total_time_taken = 0\<rparr>"

definition worker1 :: worker where
  "worker1 = \<lparr>worker_id = 1, is_busy = False, total_searches = 0, successful_searches = 0,
               failed_searches = 0, captchas_solved = 0\<rparr>"

definition pool1 :: "nat pool" where
  "pool1 = \<lparr>workers = [worker1], task_queue = [], result_queue = [], config_max_retries = Some 2,
             default_limit = 20\<rparr>"





definition req1 :: request where
  "req1 = \<lparr>arg_query = Some ''sushi'', arg_location = Some ''recife'', arg_limit = None, arg_use_cache = Some ''false''\<rparr>"

definition res5 :: "nat result" where
  "res5 = \<lparr>status = ''success'', places = [1, 2, 3, 4, 5], error = None, task_id = Some ''u1'',
            res_worker_id = Some 1, from_cache = None, meta_from_cache = False,
            meta_captchas_solved = 0, meta_total_time_taken = 7\<rparr>"

definition server_answered :: "nat server" where
  "server_answered = \<lparr>cache_memory = (\<lambda>k. None),
                       worker_pool = Some (pool1\<lparr>result_queue := [res5]\<rparr>), clock = 0\<rparr>"

definition areq5 :: api_request where
  "areq5 = \<lparr>q_query = Some ''pizza'', q_location = Some ''boston'', q_limit = Some ''5''\<rparr>"

definition areq10 :: api_request where
  "areq10 = \<lparr>q_query = Some ''pizza'', q_location = Some ''boston'', q_limit = Some ''10''\<rparr>"

definition task_u1 :: ptask where
  "task_u1 = \<lparr>p_id = ''u1'', p_query = ''pizza'', p_location = ''boston'', p_limit = Some 5\<rparr>"

definition pool_task :: "nat pool" where
  "pool_task = pool1\<lparr>task_queue := [Some task_u1]\<rparr>"

definition perform_fail :: "string \<Rightarrow> string \<Rightarrow> int \<Rightarrow> nat \<Rightarrow> nat result outcome" where
  "perform_fail query location limit attempt = Raise (if attempt = 0 then ''first'' else ''second'')"

definition perform_ok :: "string \<Rightarrow> string \<Rightarrow> int \<Rightarrow> nat \<Rightarrow> nat result outcome" where
  "perform_ok query location limit attempt = Ok res5"







section \<open>Evaluation lemmas\<close>



section \<open>The limit of the multi-host gateway\<close>








lemma set_cached_result_tasks:
  "set_cached_result md5 now q l L r st = Ok st' \<Longrightarrow> tasks st' = tasks st"
  by (auto simp add: set_cached_result_def split: option.splits)






section \<open>Correlation of results in the pool\<close>

lemma get_result_loop_deadline:
  "\<not> int now < end_time \<Longrightarrow> get_result_loop tid end_time lat q now = (None, q, now)"
  by (subst get_result_loop.simps) simp

lemma get_result_loop_empty:
  "int now < end_time \<Longrightarrow>
   get_result_loop tid end_time lat [] now = get_result_loop tid end_time lat [] (now + 500000)"
  by (subst get_result_loop.simps) simp

lemma get_result_loop_match:
  "int now < end_time \<Longrightarrow> \<not> truthy tid \<or> task_id item = tid \<Longrightarrow>
   get_result_loop tid end_time lat (item # rest) now = (Some item, rest, now + Suc lat)"
  by (subst get_result_loop.simps) simp

lemma get_result_loop_requeue:
  "int now < end_time \<Longrightarrow> truthy tid \<Longrightarrow> task_id item \<noteq> tid \<Longrightarrow>
   get_result_loop tid end_time lat (item # rest) now
     = get_result_loop tid end_time lat (rest @ [item]) (now + Suc lat)"
  by (subst get_result_loop.simps) simp

lemma get_result_loop_requeues:
  "get_result_loop tid end_time lat q now = (res, q', now') \<Longrightarrow> truthy tid \<Longrightarrow>
     (case res of Some r \<Rightarrow> task_id r = tid \<and> mset q = add_mset r (mset q') | None \<Rightarrow> mset q' = mset q)"
proof (induction tid end_time lat q now rule: get_result_loop.induct)
  case (1 tid end_time lat q now)
  show ?case
  proof (cases "int now < end_time")
    case False
    with "1.prems" show ?thesis by (simp add: get_result_loop_deadline)
  next
    case True
    show ?thesis
    proof (cases q)
      case Nil
      with True "1.prems" have rec: "get_result_loop tid end_time lat [] (now + 500000) = (res, q', now')"
        by (simp add: get_result_loop_empty)
      from "1.IH"(1) [OF True Nil rec "1.prems"(2)] Nil show ?thesis by (auto split: option.splits)
    next
      case (Cons item rest)
      show ?thesis
      proof (cases "task_id item = tid")
        case match: True
        with True Cons "1.prems" show ?thesis by (auto simp add: get_result_loop_match)
      next
        case nomatch: False
        with True Cons "1.prems" have rec: "get_result_loop tid end_time lat (rest @ [item]) (now + Suc lat) = (res, q', now')"
          by (simp add: get_result_loop_requeue)
        from "1.IH"(2) [OF True Cons _ rec "1.prems"(2)] nomatch "1.prems"(2)
        have "case res of Some r \<Rightarrow> task_id r = tid \<and> mset (rest @ [item]) = add_mset r (mset q') | None \<Rightarrow> mset q' = mset (rest @ [item])"
          by simp
        with Cons show ?thesis by (auto split: option.splits)
      qed
    qed
  qed
qed

text \<open>
  C2 (amended). A call of \<open>get_result\<close> with a task id that is neither \<open>None\<close> nor empty
  returns only a result whose \<open>task_id\<close> is the requested one; every result it dequeues
  with another id is put back on the result queue, so the results left on the queue are, as
  a multiset, the ones that were there, less the returned one.
\<close>

theorem get_result_correlates:
  "get_result tid timeout lat q now = (res, q', now') \<Longrightarrow> truthy tid \<Longrightarrow>
     (case res of Some r \<Rightarrow> task_id r = tid \<and> mset q = add_mset r (mset q') | None \<Rightarrow> mset q' = mset q)"
  unfolding get_result_def by (rule get_result_loop_requeues)

lemma get_result_second:
  "get_result (Some ''b'') 1000000 0 [result_a, result_b] 0 = (Some result_b, [result_a], 2)"
  by (simp add: get_result_def get_result_loop.simps truthy_def result_a_def result_b_def)

theorem get_result_correlates_witness:
  "get_result (Some ''b'') 1000000 0 [result_a, result_b] 0 = (Some result_b, [result_a], 2)
   \<and> truthy (Some ''b'')
   \<and> task_id result_b = Some ''b''
   \<and> mset [result_a, result_b] = add_mset result_b (mset [result_a])"
  using get_result_correlates [OF get_result_second] get_result_second
  by (simp add: truthy_def)

text \<open>
  With an empty task id the guard \<^verbatim>\<open>not task_id\<close> holds and the first result dequeued is
  returned whatever its id.
\<close>

theorem get_result_empty_id_counterexample:
  "get_result (Some []) 1000000 0 [result_a] 0 = (Some result_a, [], 1) \<and> task_id result_a \<noteq> Some []"
  by (simp add: get_result_def get_result_loop.simps truthy_def result_a_def)

section \<open>The timeout of a dispatch\<close>



lemma strip_pizza: "strip ''pizza'' = ''pizza''" by code_simp





section \<open>A search while no worker is there\<close>

lemma wait_result_silent:
  "redis st (''scraper:result:'' @ tid) = None \<Longrightarrow>
   wait_result md5 (\<lambda>n s. s) k now tid query location limit st
     = (Http 504 (BError RequestTimeout), st\<lparr>failed := failed st + 1\<rparr>)"
  by (induction k arbitrary: now) (simp_all add: redis_get_def)








section \<open>Task ids of the multi-host gateway\<close>

lemma lower_false: "lower ''false'' = ''false''"
  by code_simp

text \<open>
  C5. The multi-host gateway names a task by the millisecond of its dispatch. Two dispatches
  of different requests, 0.3 ms apart, get the same task id and wait on the same result key.
\<close>

theorem master_task_id_reused:
  "(1700000000000100::nat) \<noteq> 1700000000000400
   \<and> req0 \<noteq> req1
   \<and> master_task_id 1700000000000100 = master_task_id 1700000000000400
   \<and> t_id (hd (tasks (snd (enqueue_and_wait (\<lambda>s. s) (\<lambda>n s. s) 1700000000000100 ''pizza'' ''boston'' 50 master0))))
      = t_id (hd (tasks (snd (enqueue_and_wait (\<lambda>s. s) (\<lambda>n s. s) 1700000000000400 ''sushi'' ''recife'' 10 master0))))"
proof -
  have id: "master_task_id 1700000000000100 = master_task_id 1700000000000400"
    by (simp add: master_task_id_def)
  have w: "tasks (snd (enqueue_and_wait (\<lambda>s. s) (\<lambda>n s. s) now_us q l L master0))
             = [\<lparr>t_id = master_task_id now_us, t_query = q, t_location = l, t_limit = L\<rparr>]" for now_us q l L
    unfolding enqueue_and_wait_def Let_def
    by (subst wait_result_silent) (simp_all add: master0_def)
  have "req0 \<noteq> req1" by (simp add: req0_def req1_def)
  with id w show ?thesis by simp
qed

section \<open>The cache key of the single-process gateway\<close>

lemma strip_boston_lc: "strip ''boston'' = ''boston''" by code_simp

lemma key_pizza_boston: "get_cache_key ''pizza'' ''boston'' = ''pizza|boston''" by code_simp

lemma py_int_5: "py_int (PyStr ''5'') = Some 5" by code_simp

lemma py_int_10: "py_int (PyStr ''10'') = Some 10" by code_simp

lemma first_search:
  "api_search 120 None 0 ''u1'' areq5 server_answered
     = (Http 200 (BResult res5),
        \<lparr>cache_memory = (\<lambda>k. None)(''pizza|boston'' \<mapsto> res5),
         worker_pool = Some (pool1\<lparr>task_queue := [Some \<lparr>p_id = ''u1'', p_query = ''pizza'',
                                     p_location = ''boston'', p_limit = Some 5\<rparr>]\<rparr>),
         clock = 1\<rparr>)"
  by (simp add: api_search_def areq5_def server_answered_def strip_pizza strip_boston_lc key_pizza_boston
        py_int_5 pool1_def worker1_def available_workers_def total_workers_def busy_workers_def
        submit_task_def get_result_def get_result_loop.simps truthy_def res5_def Let_def)

text \<open>
  C1. The cache key of the single-process gateway is built from the query and the location
  only. A search with limit 5 is answered by a worker with five places and cached under
  \<^verbatim>\<open>pizza|boston\<close>; the next search for the same query and location with limit 10 hits
  that entry and is answered with the five places.
\<close>

theorem cache_key_ignores_limit:
  "q_limit areq5 = Some ''5'' \<and> q_limit areq10 = Some ''10''
   \<and> fst (api_search 120 None 0 ''u1'' areq5 server_answered) = Http 200 (BResult res5)
   \<and> fst (api_search 120 None 0 ''u2'' areq10 (snd (api_search 120 None 0 ''u1'' areq5 server_answered)))
       = Http 200 (BResult (res5\<lparr>meta_from_cache := True\<rparr>))
   \<and> length (places res5) = 5"
  by (simp add: first_search)
     (simp add: api_search_def areq5_def areq10_def strip_pizza strip_boston_lc key_pizza_boston py_int_10
        res5_def Let_def)

section \<open>Retries of a worker\<close>

lemma search_loop_two:
  "search_loop perform 0 2 None =
     (case perform 0 of
        Ok r \<Rightarrow> (Inl r, 1)
      | Raise e1 \<Rightarrow> (case perform 1 of Ok r \<Rightarrow> (Inl r, 2) | Raise e2 \<Rightarrow> (Inr (Some e2), 2)))"
  by (simp add: numeral_2_eq_2 split: outcome.splits)

text \<open>
  C6 (amended). A pass of the worker loop over a task, with \<^verbatim>\<open>max_retries\<close> 2 (configured or
  by default), calls the collaborator once when the first call succeeds and twice when it
  fails; the task leaves the queue and exactly one result with the task's id is put on the
  result queue. When both calls fail that result is an error result with the text of the
  second failure, and the worker's \<open>failed_searches\<close> and \<open>total_searches\<close> have each
  grown by one.
\<close>

theorem worker_retries_twice:
  assumes queue: "task_queue pool = Some t # rest"
    and retries: "config_max_retries pool = None \<or> config_max_retries pool = Some 2"
    and idx: "i < length (workers pool)"
    and pass: "worker_loop_pass perform i pool = (pool', p)"
    and limit: "limit = (case p_limit t of None \<Rightarrow> default_limit pool | Some l \<Rightarrow> l)"
  shows "(\<exists>r. result_queue pool' = result_queue pool @ [r] \<and> task_id r = Some (p_id t))
       \<and> task_queue pool' = rest
       \<and> total_searches (workers pool' ! i) = total_searches (workers pool ! i) + 1
       \<and> (case perform (p_query t) (p_location t) limit 0 of
            Ok r \<Rightarrow> p = Handled 1
                 \<and> result_queue pool' = result_queue pool @ [r\<lparr>task_id := Some (p_id t)\<rparr>]
                 \<and> failed_searches (workers pool' ! i) = failed_searches (workers pool ! i)
          | Raise e1 \<Rightarrow> p = Handled 2
                 \<and> (case perform (p_query t) (p_location t) limit 1 of
                       Ok r \<Rightarrow> result_queue pool' = result_queue pool @ [r\<lparr>task_id := Some (p_id t)\<rparr>]
                            \<and> failed_searches (workers pool' ! i) = failed_searches (workers pool ! i)
                     | Raise e2 \<Rightarrow>
                         result_queue pool' = result_queue pool @
                           [(error_result e2 (Some (worker_id (workers pool ! i))))\<lparr>task_id := Some (p_id t)\<rparr>]
                         \<and> failed_searches (workers pool' ! i) = failed_searches (workers pool ! i) + 1))"
proof -
  from retries have m: "(case config_max_retries pool of None \<Rightarrow> 2 | Some m \<Rightarrow> m) = (2::int)"
    by auto
  have n2: "nat (2::int) = 2" by simp
  show ?thesis
    using queue idx pass limit
    by (auto simp add: worker_loop_pass_def search_def m n2 search_loop_two Let_def
          split: outcome.splits)
qed

lemma pass_fail:
  "worker_loop_pass perform_fail 0 pool_task
     = (pool1\<lparr>workers := [worker1\<lparr>total_searches := 1, failed_searches := 1\<rparr>],
              result_queue := [(error_result ''second'' (Some 1))\<lparr>task_id := Some ''u1''\<rparr>]\<rparr>,
        Handled 2)"
  by (simp add: worker_loop_pass_def pool_task_def pool1_def task_u1_def search_def search_loop_two
        perform_fail_def worker1_def Let_def)

lemma pass_ok:
  "worker_loop_pass perform_ok 0 pool_task
     = (pool1\<lparr>workers := [worker1\<lparr>total_searches := 1, successful_searches := 1\<rparr>],
              result_queue := [res5\<lparr>task_id := Some ''u1''\<rparr>]\<rparr>,
        Handled 1)"
  by (simp add: worker_loop_pass_def pool_task_def pool1_def task_u1_def search_def search_loop_two
        perform_ok_def worker1_def Let_def)

theorem worker_retries_twice_witness:
  "task_queue pool_task = [Some task_u1]
   \<and> config_max_retries pool_task = Some 2
   \<and> 0 < length (workers pool_task)
   \<and> snd (worker_loop_pass perform_fail 0 pool_task) = Handled 2
   \<and> result_queue (fst (worker_loop_pass perform_fail 0 pool_task))
        = [(error_result ''second'' (Some 1))\<lparr>task_id := Some ''u1''\<rparr>]
   \<and> failed_searches (workers (fst (worker_loop_pass perform_fail 0 pool_task)) ! 0) = 1"
proof -
  have q: "task_queue pool_task = Some task_u1 # []" by (simp add: pool_task_def)
  have r: "config_max_retries pool_task = None \<or> config_max_retries pool_task = Some 2"
    by (simp add: pool_task_def pool1_def)
  have i: "0 < length (workers pool_task)" by (simp add: pool_task_def pool1_def)
  have l: "(5::int) = (case p_limit task_u1 of None \<Rightarrow> default_limit pool_task | Some l \<Rightarrow> l)"
    by (simp add: task_u1_def)
  have p: "worker_loop_pass perform_fail 0 pool_task
             = (fst (worker_loop_pass perform_fail 0 pool_task), snd (worker_loop_pass perform_fail 0 pool_task))"
    by simp
  from worker_retries_twice [OF q r i p l] q r i
  show ?thesis
    by (simp add: perform_fail_def task_u1_def pool_task_def pool1_def worker1_def)
qed

text \<open>
  The counter \<open>failed_searches\<close> counts searches, not attempts: after two failed attempts
  it has grown by one. A first attempt that succeeds is the only one.
\<close>

theorem failed_counter_counterexample:
  "snd (worker_loop_pass perform_fail 0 pool_task) = Handled 2
   \<and> failed_searches (workers pool_task ! 0) = 0
   \<and> failed_searches (workers (fst (worker_loop_pass perform_fail 0 pool_task)) ! 0) = 1
   \<and> snd (worker_loop_pass perform_ok 0 pool_task) = Handled 1"
  by (simp add: pass_fail pass_ok, simp add: pool_task_def pool1_def worker1_def)

section \<open>Liveness of a worker\<close>






section \<open>The payload of a successful search\<close>

























section \<open>The cache key of the multi-host gateway\<close>

lemma digit_val_digit_char: "n < 10 \<Longrightarrow> digit_val (digit_char n) = n"
  by (simp add: digit_val_def digit_char_def)

lemma is_digit_digit_char: "n < 10 \<Longrightarrow> is_digit (digit_char n)"
  by (simp add: is_digit_def digit_char_def Let_def)

lemma str_nat_value: "foldl (\<lambda>acc c. acc * 10 + digit_val c) 0 (str_nat n) = n"
proof (induction n rule: str_nat.induct)
  case (1 n)
  show ?case
  proof (cases "n < 10")
    case True
    then show ?thesis by (subst str_nat.simps) (simp add: digit_val_digit_char)
  next
    case False
    with "1.IH" show ?thesis
      by (subst str_nat.simps) (simp add: digit_val_digit_char)
  qed
qed

lemma str_nat_digits: "c \<in> set (str_nat n) \<Longrightarrow> is_digit c"
proof (induction n rule: str_nat.induct)
  case (1 n)
  show ?case
  proof (cases "n < 10")
    case True
    with "1.prems" show ?thesis by (subst (asm) str_nat.simps) (simp add: is_digit_digit_char)
  next
    case False
    with "1.prems" "1.IH" show ?thesis
      by (subst (asm) str_nat.simps) (auto simp add: is_digit_digit_char)
  qed
qed

lemma str_nat_inj: "str_nat a = str_nat b \<Longrightarrow> a = b"
  by (metis str_nat_value)

lemma str_nat_no_sign: "CHR ''-'' # xs \<noteq> str_nat n"
proof
  assume "CHR ''-'' # xs = str_nat n"
  then have "CHR ''-'' \<in> set (str_nat n)" by (metis list.set_intros(1))
  then have "is_digit CHR ''-''" by (rule str_nat_digits)
  then show False by (simp add: is_digit_def)
qed

lemma str_int_inj: "str_int a = str_int b \<Longrightarrow> a = b"
proof (cases "a < 0"; cases "b < 0")
  assume "str_int a = str_int b" "a < 0" "b < 0"
  then have "nat (- a) = nat (- b)" by (simp add: str_int_def str_nat_inj)
  with \<open>a < 0\<close> \<open>b < 0\<close> show ?thesis by simp
next
  assume "str_int a = str_int b" "a < 0" "\<not> b < 0"
  then show ?thesis using str_nat_no_sign by (simp add: str_int_def)
next
  assume "str_int a = str_int b" "\<not> a < 0" "b < 0"
  then show ?thesis using str_nat_no_sign [of "str_nat (nat (- b))" "nat a"] by (simp add: str_int_def)
next
  assume "str_int a = str_int b" "\<not> a < 0" "\<not> b < 0"
  then have "nat a = nat b" by (simp add: str_int_def str_nat_inj)
  with \<open>\<not> a < 0\<close> \<open>\<not> b < 0\<close> show ?thesis by simp
qed

text \<open>
  The text the multi-host gateway hashes differs whenever the limits differ: two requests
  that differ only in limit get the same cache key only if the MD5 digests of two different
  texts collide.
\<close>

lemma key_string_limit: "key_string query location a = key_string query location b \<Longrightarrow> a = b"
  by (simp add: key_string_def str_int_inj)

text \<open>
  The key of the single-process gateway is the same for queries and locations that
  agree after trimming and lower-casing.
\<close>

lemma get_cache_key_normalized:
  "lower q1 = lower q2 \<Longrightarrow> lower l1 = lower l2 \<Longrightarrow> get_cache_key q1 l1 = get_cache_key q2 l2"
  by (simp add: get_cache_key_def lower_def)

end
